theory Spec2Isabelle
  imports Main
begin

section \<open>The dashboard controller of \<open>frontend/src/App.jsx\<close>\<close>

text \<open>
  The component \<open>F1Dashboard\<close> keeps eleven \<open>useState\<close> cells and seven asynchronous
  handlers that talk to the backend. Every handler is a synchronous segment up to its
  first \<open>await\<close>, and a second segment that runs when the awaited request settles. The
  embedding gives one function per segment (\<open>_start\<close> and \<open>_resume\<close>) over a record of
  the cells, so that other handlers may run between the two; the function named as the
  handler is the call that runs to completion with nothing in between.

  A \<open>set...\<close> call is a field update. Side effects that are not React state (requests
  sent, \<open>alert\<close>, \<open>console.error\<close>, \<open>setTimeout\<close>) are appended, in program order, to the
  field \<open>effects\<close>.
\<close>

subsection \<open>Payloads\<close>

text \<open>
  Parts of a response that the controller only stores and hands to the view are values of
  \<open>json\<close>. \<open>truthy\<close> is JavaScript's conversion to a boolean on such a value. The
  controller does no arithmetic: a number is kept as an integer, and only whether it is
  zero is ever looked at.
\<close>

datatype json =
    JNull
  | JBool bool
  | JNum int
  | JStr string
  | JArr "json list"
  | JObj "(string \<times> json) list"

fun truthy :: "json \<Rightarrow> bool" where
  "truthy JNull = False"
| "truthy (JBool b) = b"
| "truthy (JNum n) = (n \<noteq> 0)"
| "truthy (JStr s) = (s \<noteq> [])"
| "truthy (JArr xs) = True"
| "truthy (JObj kvs) = True"

text \<open>
  The envelope \<open>{success, message?, ...payload}\<close>. A field that is missing from the
  response reads as \<open>undefined\<close>: a missing \<open>success\<close> is \<open>False\<close> here, a missing
  \<open>message\<close> is \<open>None\<close>.
\<close>

record 'p envelope =
  success :: bool
  message :: "string option"
  payload :: 'p

record driver_row =
  position :: nat
  full_name :: string
  team_name :: string
  points :: int
  wins :: nat

record constructor_row =
  c_position :: nat
  c_team_name :: string
  c_points :: int
  c_wins :: nat

text \<open>\<open>data.data\<close> of \<open>POST /f1/fetch-data\<close>; every list is read through \<open>?.\<close> or \<open>!\<close>.\<close>

record season_snapshot =
  driver_standings :: "driver_row list option"
  constructor_standings :: "constructor_row list option"
  latest_race :: "json option"

text \<open>An entry of \<open>GET /files\<close>.\<close>

record file_record =
  file_id :: nat
  filename :: string
  upload_date :: string
  file_type :: string

text \<open>
  The payload of \<open>GET /files/{id}/analyze\<close>; \<open>a_filename\<close> is its field \<open>filename\<close>. Both
  fields may be missing from the body (\<open>None\<close>, read as \<open>undefined\<close>): \<open>analysis\<close> is tested
  for truthiness by \<open>deleteFile\<close> (line 140) and by the view (line 887), and \<open>filename\<close> is
  compared on line 140 with a value that is itself \<open>undefined\<close> when no record is found, so
  that a missing \<open>filename\<close> changes what \<open>deleteFile\<close> does.

  The \<open>id\<close> and \<open>filename\<close> of a file record, which the view reads unguarded (lines 770,
  781) and the interface lists as required, are always there.
\<close>

record file_analysis =
  a_filename :: "string option"
  analysis :: "json option"

subsection \<open>Requests and their outcomes\<close>

text \<open>
  \<open>await fetch(...)\<close> followed by \<open>await response.json()\<close>. \<open>Fetch_rejected m\<close>: \<open>fetch\<close>
  rejected with an error whose \<open>message\<close> is \<open>m\<close>. \<open>Response ok status j\<close>: \<open>fetch\<close> resolved
  with \<open>response.ok\<close> and \<open>response.status\<close>, and \<open>response.json()\<close> rejected with message
  \<open>m\<close> (\<open>j = Inl m\<close>) or resolved with \<open>data\<close> (\<open>j = Inr data\<close>).
\<close>

datatype 'a fetched =
    Fetch_rejected string
  | Response bool nat "string + 'a"

text \<open>What the \<open>try\<close> block holds after both awaits, for a handler that does not look at
  \<open>response.ok\<close>: the caught error's message, or \<open>data\<close>.\<close>

fun awaited :: "'a fetched \<Rightarrow> string + 'a" where
  "awaited (Fetch_rejected m) = Inl m"
| "awaited (Response ok st j) = j"

datatype request =
    Post_fetch_data
  | Get_insights
  | Get_historical nat
  | Get_files
  | Get_analyze nat
  | Post_upload string
  | Delete_file nat

datatype effect =
    Fetch request
  | Alert string
  | Console_error string string
  | Set_timeout nat

subsection \<open>The state cells\<close>

text \<open>
  \<open>insights\<close> starts as \<open>[]\<close> and is overwritten with \<open>data.insights\<close>, which is
  \<open>undefined\<close> (\<open>None\<close>) when the body has no such field.
\<close>

datatype tab = Standings | Constructors | Race | Historical | Files | File_analysis

fun tab_id :: "tab \<Rightarrow> string" where
  "tab_id Standings = ''standings''"
| "tab_id Constructors = ''constructors''"
| "tab_id Race = ''race''"
| "tab_id Historical = ''historical''"
| "tab_id Files = ''files''"
| "tab_id File_analysis = ''file-analysis''"

record dashboard =
  activeTab :: tab
  f1Data :: "season_snapshot option"
  insights :: "json list option"
  files :: "file_record list"
  loading :: bool
  error :: "string option"
  uploadStatus :: string
  selectedYear :: nat
  historicalData :: "json envelope option"
  selectedFileAnalysis :: "file_analysis envelope option"
  analyzingFileId :: "nat option"
  effects :: "effect list"

definition initial :: dashboard where
  "initial = \<lparr> activeTab = Standings, f1Data = None, insights = Some [], files = [],
     loading = False, error = None, uploadStatus = [], selectedYear = 2024,
     historicalData = None, selectedFileAnalysis = None, analyzingFileId = None,
     effects = [] \<rparr>"

definition emit :: "effect \<Rightarrow> dashboard \<Rightarrow> dashboard" where
  "emit e s = s\<lparr>effects := effects s @ [e]\<rparr>"

subsection \<open>Text helpers\<close>

text \<open>\<open>data.message || d\<close>: the empty string is falsy.\<close>

definition or_default :: "string option \<Rightarrow> string \<Rightarrow> string" where
  "or_default m d = (case m of None \<Rightarrow> d | Some t \<Rightarrow> if t = [] then d else t)"

text \<open>A natural number inside a template literal.\<close>

definition digit :: "nat \<Rightarrow> char" where
  "digit d = char_of (48 + d)"

fun show_nat :: "nat \<Rightarrow> string" where
  "show_nat n = (if n < 10 then [digit n] else show_nat (n div 10) @ [digit (n mod 10)])"

declare show_nat.simps [simp del]

subsection \<open>Season snapshot and insights\<close>

definition fetchInsights_start :: "dashboard \<Rightarrow> dashboard" where
  "fetchInsights_start s = emit (Fetch Get_insights) s"

text \<open>
  The body of \<open>GET /f1/insights\<close> is known here by its field \<open>insights\<close>, \<open>None\<close> when the
  body is JSON without that field (an error body such as \<open>{"detail": ...}\<close> or
  \<open>{success: false, message}\<close>); \<open>fetchInsights\<close> tests neither \<open>response.ok\<close> nor
  \<open>data.success\<close>. The body of \<open>GET /files\<close> is known by its field \<open>files\<close>.
\<close>

definition fetchInsights_resume ::
  "json list option fetched \<Rightarrow> dashboard \<Rightarrow> dashboard" where
  "fetchInsights_resume r s =
     (case awaited r of
        Inr data \<Rightarrow> s\<lparr>insights := data\<rparr>
      | Inl m \<Rightarrow> emit (Console_error ''Failed to fetch insights:'' m) s)"

definition fetchF1Data_start :: "dashboard \<Rightarrow> dashboard" where
  "fetchF1Data_start s = emit (Fetch Post_fetch_data) (s\<lparr>loading := True, error := None\<rparr>)"

text \<open>The \<open>try\<close> block of \<open>fetchF1Data\<close> throws on \<open>!response.ok\<close> before it reads the body.\<close>

fun awaited_ok :: "'a fetched \<Rightarrow> string + 'a" where
  "awaited_ok (Fetch_rejected m) = Inl m"
| "awaited_ok (Response ok st j) =
     (if \<not> ok then Inl (''HTTP error! status: '' @ show_nat st) else j)"

definition fetchF1Data_resume ::
  "season_snapshot option envelope fetched \<Rightarrow> dashboard \<Rightarrow> dashboard" where
  "fetchF1Data_resume r s =
     (let s1 =
        (case awaited_ok r of
           Inr data \<Rightarrow>
             if success data then fetchInsights_start (s\<lparr>f1Data := payload data\<rparr>)
             else s\<lparr>error := Some (or_default (message data) ''Failed to fetch data'')\<rparr>
         | Inl m \<Rightarrow>
             s\<lparr>error := Some (''Backend connection failed: '' @ m @
               ''. Make sure your backend server is running on port 8000.'')\<rparr>)
      in s1\<lparr>loading := False\<rparr>)"

definition fetchF1Data ::
  "season_snapshot option envelope fetched \<Rightarrow> dashboard \<Rightarrow> dashboard" where
  "fetchF1Data r s = fetchF1Data_resume r (fetchF1Data_start s)"

subsection \<open>Historical season\<close>

definition fetchHistoricalData_start :: "nat \<Rightarrow> dashboard \<Rightarrow> dashboard" where
  "fetchHistoricalData_start year s =
     emit (Fetch (Get_historical year))
       (s\<lparr>loading := True, error := None, historicalData := None\<rparr>)"

definition fetchHistoricalData_resume ::
  "nat \<Rightarrow> json envelope fetched \<Rightarrow> dashboard \<Rightarrow> dashboard" where
  "fetchHistoricalData_resume year r s =
     (let s1 =
        (case awaited r of
           Inr data \<Rightarrow>
             if success data then s\<lparr>historicalData := Some data\<rparr>
             else s\<lparr>error := Some (or_default (message data)
                    (''No data available for '' @ show_nat year))\<rparr>
         | Inl m \<Rightarrow> s\<lparr>error := Some (''Failed to fetch historical data: '' @ m)\<rparr>)
      in s1\<lparr>loading := False\<rparr>)"

definition fetchHistoricalData ::
  "nat \<Rightarrow> json envelope fetched \<Rightarrow> dashboard \<Rightarrow> dashboard" where
  "fetchHistoricalData year r s =
     fetchHistoricalData_resume year r (fetchHistoricalData_start year s)"

subsection \<open>File list\<close>

definition fetchFiles_start :: "dashboard \<Rightarrow> dashboard" where
  "fetchFiles_start s = emit (Fetch Get_files) s"

definition fetchFiles_resume :: "file_record list fetched \<Rightarrow> dashboard \<Rightarrow> dashboard" where
  "fetchFiles_resume r s =
     (case awaited r of
        Inr data \<Rightarrow> s\<lparr>files := data\<rparr>
      | Inl m \<Rightarrow> emit (Console_error ''Failed to fetch files:'' m) s)"

subsection \<open>Analyze\<close>

definition analyzeFile_start :: "nat \<Rightarrow> dashboard \<Rightarrow> dashboard" where
  "analyzeFile_start fileId s =
     emit (Fetch (Get_analyze fileId)) (s\<lparr>analyzingFileId := Some fileId\<rparr>)"

definition analyzeFile_resume ::
  "file_analysis envelope fetched \<Rightarrow> dashboard \<Rightarrow> dashboard" where
  "analyzeFile_resume r s =
     (let s1 =
        (case awaited r of
           Inr data \<Rightarrow>
             if success data
             then s\<lparr>selectedFileAnalysis := Some data, activeTab := File_analysis\<rparr>
             else emit (Alert (or_default (message data) ''Failed to analyze file'')) s
         | Inl m \<Rightarrow> emit (Alert (''Error analyzing file: '' @ m)) s)
      in s1\<lparr>analyzingFileId := None\<rparr>)"

definition analyzeFile ::
  "nat \<Rightarrow> file_analysis envelope fetched \<Rightarrow> dashboard \<Rightarrow> dashboard" where
  "analyzeFile fileId r s = analyzeFile_resume r (analyzeFile_start fileId s)"

subsection \<open>Upload\<close>

text \<open>\<open>event.target.files[0]\<close> is \<open>None\<close> when no file was chosen; a file is known here by
  its name.\<close>

definition handleFileUpload_start :: "string option \<Rightarrow> dashboard \<Rightarrow> dashboard" where
  "handleFileUpload_start file s =
     (case file of
        None \<Rightarrow> s
      | Some f \<Rightarrow> emit (Fetch (Post_upload f)) (s\<lparr>uploadStatus := ''Uploading...''\<rparr>))"

definition handleFileUpload_resume :: "unit envelope fetched \<Rightarrow> dashboard \<Rightarrow> dashboard" where
  "handleFileUpload_resume r s =
     (case awaited r of
        Inr data \<Rightarrow>
          if success data
          then emit (Set_timeout 3000)
                 (fetchFiles_start (s\<lparr>uploadStatus := ''Upload successful!''\<rparr>))
          else s
      | Inl m \<Rightarrow> s\<lparr>uploadStatus := ''Upload failed: '' @ m\<rparr>)"

text \<open>The callback handed to \<open>setTimeout\<close>.\<close>

definition upload_timer_fired :: "dashboard \<Rightarrow> dashboard" where
  "upload_timer_fired s = s\<lparr>uploadStatus := []\<rparr>"

definition handleFileUpload ::
  "string option \<Rightarrow> unit envelope fetched \<Rightarrow> dashboard \<Rightarrow> dashboard" where
  "handleFileUpload file r s =
     (case file of
        None \<Rightarrow> s
      | Some f \<Rightarrow> handleFileUpload_resume r (handleFileUpload_start file s))"

subsection \<open>Delete\<close>

text \<open>
  The test of line 140. \<open>===\<close> holds between two strings that are equal and between
  \<open>undefined\<close> and \<open>undefined\<close>: a cached response without \<open>filename\<close> matches an id that
  \<open>files.find\<close> does not find. The handler reads \<open>selectedFileAnalysis\<close> and \<open>files\<close> from the
  render in which it was created, that is from the state \<open>c\<close> in which it was called,
  also after the \<open>await\<close>.
\<close>

text \<open>\<open>files.find(f => f.id === fileId)\<close>: the first record with that id, if any.\<close>

definition find_file :: "nat \<Rightarrow> file_record list \<Rightarrow> file_record option" where
  "find_file fileId fs = find (\<lambda>f. file_id f = fileId) fs"

definition shows_deleted :: "dashboard \<Rightarrow> nat \<Rightarrow> bool" where
  "shows_deleted c fileId =
     (case selectedFileAnalysis c of
        None \<Rightarrow> False
      | Some a \<Rightarrow>
          (case analysis (payload a) of None \<Rightarrow> False | Some j \<Rightarrow> truthy j) \<and>
          a_filename (payload a) =
            map_option filename (find_file fileId (files c)))"

text \<open>\<open>confirmed\<close> is the answer to \<open>confirm(...)\<close>.\<close>

definition deleteFile_start :: "bool \<Rightarrow> nat \<Rightarrow> dashboard \<Rightarrow> dashboard" where
  "deleteFile_start confirmed fileId s =
     (if \<not> confirmed then s else emit (Fetch (Delete_file fileId)) s)"

definition deleteFile_resume ::
  "dashboard \<Rightarrow> nat \<Rightarrow> unit fetched \<Rightarrow> dashboard \<Rightarrow> dashboard" where
  "deleteFile_resume c fileId r s =
     (case r of
        Fetch_rejected m \<Rightarrow> emit (Console_error ''Failed to delete file:'' m) s
      | Response ok st j \<Rightarrow>
          fetchFiles_start
            (if shows_deleted c fileId
             then s\<lparr>selectedFileAnalysis := None, activeTab := Files\<rparr>
             else s))"

definition deleteFile :: "bool \<Rightarrow> nat \<Rightarrow> unit fetched \<Rightarrow> dashboard \<Rightarrow> dashboard" where
  "deleteFile confirmed fileId r s =
     (if \<not> confirmed then s
      else deleteFile_resume s fileId r (deleteFile_start confirmed fileId s))"

subsection \<open>View projections\<close>

definition getDriverStandings :: "dashboard \<Rightarrow> driver_row list" where
  "getDriverStandings s =
     (case f1Data s of
        None \<Rightarrow> []
      | Some d \<Rightarrow> (case driver_standings d of None \<Rightarrow> [] | Some rows \<Rightarrow> take 10 rows))"

text \<open>
  Line 333, \<open>insights.length > 0 && insights.map(...)\<close>: the cards to draw, or the
  \<open>TypeError\<close> that reading \<open>length\<close> of \<open>undefined\<close> throws while the component renders.
\<close>

datatype render_error = TypeError

definition insight_cards :: "dashboard \<Rightarrow> render_error + json list" where
  "insight_cards s = (case insights s of None \<Rightarrow> Inl TypeError | Some xs \<Rightarrow> Inr xs)"


text \<open>The array the tab bar maps over.\<close>

definition availableTabs :: "dashboard \<Rightarrow> tab list" where
  "availableTabs s =
     [Standings, Constructors, Race, Historical, Files] @
     (if selectedFileAnalysis s \<noteq> None then [File_analysis] else [])"

subsection \<open>Schedules\<close>

text \<open>
  One entry per segment that the event loop can run: the synchronous part of a handler,
  the continuation of a settled request, the timer's callback, and the two setters that
  the view calls directly (\<open>setActiveTab\<close> from a tab button, \<open>setSelectedYear\<close> from
  the year selector). A schedule is any list of segments; no order is imposed, so every
  interleaving of the real component is one of them.
\<close>

datatype segment =
    F1_start
  | F1_resume "season_snapshot option envelope fetched"
  | Insights_resume "json list option fetched"
  | Historical_start nat
  | Historical_resume nat "json envelope fetched"
  | Files_start
  | Files_resume "file_record list fetched"
  | Analyze_start nat
  | Analyze_resume "file_analysis envelope fetched"
  | Upload_start "string option"
  | Upload_resume "unit envelope fetched"
  | Upload_timer
  | Delete_start bool nat
  | Delete_resume dashboard nat "unit fetched"
  | Set_active_tab tab
  | Set_selected_year nat

fun exec :: "segment \<Rightarrow> dashboard \<Rightarrow> dashboard" where
  "exec F1_start s = fetchF1Data_start s"
| "exec (F1_resume r) s = fetchF1Data_resume r s"
| "exec (Insights_resume r) s = fetchInsights_resume r s"
| "exec (Historical_start year) s = fetchHistoricalData_start year s"
| "exec (Historical_resume year r) s = fetchHistoricalData_resume year r s"
| "exec Files_start s = fetchFiles_start s"
| "exec (Files_resume r) s = fetchFiles_resume r s"
| "exec (Analyze_start fileId) s = analyzeFile_start fileId s"
| "exec (Analyze_resume r) s = analyzeFile_resume r s"
| "exec (Upload_start file) s = handleFileUpload_start file s"
| "exec (Upload_resume r) s = handleFileUpload_resume r s"
| "exec Upload_timer s = upload_timer_fired s"
| "exec (Delete_start confirmed fileId) s = deleteFile_start confirmed fileId s"
| "exec (Delete_resume c fileId r) s = deleteFile_resume c fileId r s"
| "exec (Set_active_tab t) s = s\<lparr>activeTab := t\<rparr>"
| "exec (Set_selected_year y) s = s\<lparr>selectedYear := y\<rparr>"

definition run :: "segment list \<Rightarrow> dashboard \<Rightarrow> dashboard" where
  "run segs s = fold exec segs s"

fun is_analyze :: "segment \<Rightarrow> bool" where
  "is_analyze (Analyze_start fileId) = True"
| "is_analyze (Analyze_resume r) = True"
| "is_analyze g = False"

text \<open>The two segments that call \<open>setSelectedFileAnalysis\<close>.\<close>

fun writes_analysis :: "segment \<Rightarrow> bool" where
  "writes_analysis (Analyze_resume r) = True"
| "writes_analysis (Delete_resume c fileId r) = True"
| "writes_analysis g = False"

text \<open>How many times a request has been sent.\<close>

definition fetches :: "request \<Rightarrow> dashboard \<Rightarrow> nat" where
  "fetches q s = count_list (effects s) (Fetch q)"

subsection \<open>Sample data\<close>

definition sample_files :: "file_record list" where
  "sample_files =
     [\<lparr>file_id = 1, filename = ''a.csv'', upload_date = ''2024-03-01T10:00:00'', file_type = ''csv''\<rparr>,
      \<lparr>file_id = 2, filename = ''b.csv'', upload_date = ''2024-03-02T10:00:00'', file_type = ''csv''\<rparr>]"

definition sample_analysis :: "file_analysis envelope" where
  "sample_analysis =
     \<lparr>success = True, message = None,
      payload = \<lparr>a_filename = Some ''a.csv'',
                 analysis = Some (JObj [(''summary'', JObj [(''total_rows'', JNum 3)])])\<rparr>\<rparr>"

text \<open>The file list has arrived.\<close>

definition listed :: dashboard where
  "listed = fetchFiles_resume (Response True 200 (Inr sample_files)) initial"

text \<open>Then \<open>a.csv\<close> was analysed: the user looks at its analysis.\<close>

definition viewing :: dashboard where
  "viewing = analyzeFile 1 (Response True 200 (Inr sample_analysis)) listed"

text \<open>The same, after a response \<open>{success: true, filename: "a.csv"}\<close> that carried no
  \<open>analysis\<close>.\<close>

definition bare_analysis :: "file_analysis envelope" where
  "bare_analysis =
     \<lparr>success = True, message = None,
      payload = \<lparr>a_filename = Some ''a.csv'', analysis = None\<rparr>\<rparr>"

definition viewing_bare :: dashboard where
  "viewing_bare = analyzeFile 1 (Response True 200 (Inr bare_analysis)) listed"




definition acknowledged :: "unit fetched" where
  "acknowledged = Response True 200 (Inr ())"

text \<open>Two failure responses of the analyze endpoint, with and without a message; the
  handler reads nothing but \<open>success\<close> and \<open>message\<close> of such a response.\<close>

definition refused_analysis :: "file_analysis envelope" where
  "refused_analysis =
     \<lparr>success = False, message = Some ''File not found'',
      payload = \<lparr>a_filename = None, analysis = None\<rparr>\<rparr>"

definition silent_refusal :: "file_analysis envelope" where
  "silent_refusal = refused_analysis\<lparr>message := None\<rparr>"

text \<open>A cached historical season, and the answer for a year without data.\<close>

definition season_2000 :: "json envelope" where
  "season_2000 =
     \<lparr>success = True, message = None,
      payload = JObj [(''year'', JNum 2000), (''race_count'', JNum 17)]\<rparr>"

definition no_data :: "json envelope" where
  "no_data = \<lparr>success = False, message = Some ''no data'', payload = JObj []\<rparr>"

definition season_loaded :: dashboard where
  "season_loaded = fetchHistoricalData 2000 (Response True 200 (Inr season_2000)) initial"

text \<open>Snapshot responses, and a snapshot with twelve ranked drivers.\<close>

definition snapshot_2024 :: season_snapshot where
  "snapshot_2024 = \<lparr>driver_standings = Some [], constructor_standings = Some [],
     latest_race = None\<rparr>"

definition snapshot_ok :: "season_snapshot option envelope" where
  "snapshot_ok = \<lparr>success = True, message = None, payload = Some snapshot_2024\<rparr>"

definition snapshot_refused :: "season_snapshot option envelope" where
  "snapshot_refused = \<lparr>success = False, message = Some ''upstream unavailable'', payload = None\<rparr>"

definition twelve_drivers :: "driver_row list" where
  "twelve_drivers =
     map (\<lambda>i. \<lparr>position = i, full_name = ''Driver'', team_name = ''Team'',
            points = 300 - 20 * int i, wins = 0\<rparr>) [1..<13]"

definition snapshot_twelve :: "season_snapshot option envelope" where
  "snapshot_twelve =
     \<lparr>success = True, message = None,
      payload = Some (snapshot_2024\<lparr>driver_standings := Some twelve_drivers\<rparr>)\<rparr>"

definition standings_loaded :: dashboard where
  "standings_loaded = fetchF1Data (Response True 200 (Inr snapshot_twelve)) initial"

text \<open>The snapshot has arrived and the insights request is in flight.\<close>

definition snapshot_shown :: dashboard where
  "snapshot_shown = fetchF1Data (Response True 200 (Inr snapshot_ok)) initial"

text \<open>The two answers of the upload endpoint.\<close>

definition upload_accepted :: "unit envelope" where
  "upload_accepted = \<lparr>success = True, message = Some ''File uploaded'', payload = ()\<rparr>"

definition upload_refused :: "unit envelope" where
  "upload_refused = \<lparr>success = False, message = Some ''Unsupported file type'', payload = ()\<rparr>"

section \<open>Properties\<close>

subsection \<open>Frame lemmas\<close>

lemma emit_fields [simp]:
  "activeTab (emit e s) = activeTab s"
  "f1Data (emit e s) = f1Data s"
  "insights (emit e s) = insights s"
  "files (emit e s) = files s"
  "loading (emit e s) = loading s"
  "error (emit e s) = error s"
  "uploadStatus (emit e s) = uploadStatus s"
  "selectedYear (emit e s) = selectedYear s"
  "historicalData (emit e s) = historicalData s"
  "selectedFileAnalysis (emit e s) = selectedFileAnalysis s"
  "analyzingFileId (emit e s) = analyzingFileId s"
  "effects (emit e s) = effects s @ [e]"
  by (simp_all add: emit_def)

lemma fetchFiles_start_fields [simp]:
  "activeTab (fetchFiles_start s) = activeTab s"
  "selectedFileAnalysis (fetchFiles_start s) = selectedFileAnalysis s"
  "uploadStatus (fetchFiles_start s) = uploadStatus s"
  "analyzingFileId (fetchFiles_start s) = analyzingFileId s"
  "effects (fetchFiles_start s) = effects s @ [Fetch Get_files]"
  by (simp_all add: fetchFiles_start_def)




lemma deleteFile_resume_kept:
  "\<not> shows_deleted c fileId \<Longrightarrow>
     selectedFileAnalysis (deleteFile_resume c fileId r s) = selectedFileAnalysis s \<and>
     activeTab (deleteFile_resume c fileId r s) = activeTab s"
  by (cases r) (simp_all add: deleteFile_resume_def)

lemma deleteFile_resume_retracted:
  "shows_deleted c fileId \<Longrightarrow>
     selectedFileAnalysis (deleteFile_resume c fileId (Response ok st b) s) = None \<and>
     activeTab (deleteFile_resume c fileId (Response ok st b) s) = Files"
  by (simp add: deleteFile_resume_def)

lemma deleteFile_start_kept [simp]:
  "selectedFileAnalysis (deleteFile_start confirmed fileId s) = selectedFileAnalysis s"
  "activeTab (deleteFile_start confirmed fileId s) = activeTab s"
  "files (deleteFile_start confirmed fileId s) = files s"
  by (simp_all add: deleteFile_start_def)

lemma sample_lookup:
  "find_file (Suc 0) sample_files = Some (hd sample_files)"
  "find_file 2 sample_files = Some (hd (tl sample_files))"
  "filename (hd sample_files) = ''a.csv''"
  "filename (hd (tl sample_files)) = ''b.csv''"
  by (simp_all add: find_file_def sample_files_def)

lemma viewing_fields:
  "files viewing = sample_files"
  "selectedFileAnalysis viewing = Some sample_analysis"
  "activeTab viewing = File_analysis"
  by (simp_all add: viewing_def listed_def analyzeFile_def analyzeFile_start_def
      analyzeFile_resume_def fetchFiles_resume_def sample_analysis_def initial_def)

lemma viewing_bare_fields:
  "files viewing_bare = sample_files"
  "selectedFileAnalysis viewing_bare = Some bare_analysis"
  "activeTab viewing_bare = File_analysis"
  by (simp_all add: viewing_bare_def listed_def analyzeFile_def analyzeFile_start_def
      analyzeFile_resume_def fetchFiles_resume_def bare_analysis_def initial_def)



lemma season_loaded_fields:
  "historicalData season_loaded = Some season_2000"
  by (simp add: season_loaded_def fetchHistoricalData_def fetchHistoricalData_start_def
      fetchHistoricalData_resume_def season_2000_def)

subsection \<open>Deleting a file\<close>

text \<open>
  C1, as amended. A confirmed \<open>delete(fileId)\<close> whose \<open>DELETE\<close> request resolves clears the
  cached analysis and sets \<open>activeTab\<close> to the files tab, in the one continuation, when the
  file list of the calling render maps \<open>fileId\<close> to the cached analysis's filename
  \<^emph>\<open>and the cached response carries a truthy \<open>analysis\<close>\<close>. This holds whatever ran
  between the call and its continuation (\<open>c\<close> is the state at the call, \<open>s\<close> the state
  the continuation finds) and for the uninterrupted call. When the listed filename is not
  the cached one, cache and \<open>activeTab\<close> are not written, whatever the request's outcome.
  A cancelled confirmation changes nothing at all.
\<close>

theorem deleteFile_retraction:
  "(find_file fileId (files c) = Some f \<and> selectedFileAnalysis c = Some a \<and>
    a_filename (payload a) = Some (filename f) \<and> analysis (payload a) = Some j \<and> truthy j \<longrightarrow>
      selectedFileAnalysis (deleteFile_resume c fileId (Response ok st b) s) = None \<and>
      activeTab (deleteFile_resume c fileId (Response ok st b) s) = Files \<and>
      selectedFileAnalysis (deleteFile True fileId (Response ok st b) c) = None \<and>
      activeTab (deleteFile True fileId (Response ok st b) c) = Files) \<and>
   (find_file fileId' (files c) = Some f' \<and>
    map_option (a_filename \<circ> payload) (selectedFileAnalysis c) \<noteq> Some (Some (filename f')) \<longrightarrow>
      selectedFileAnalysis (deleteFile_resume c fileId' r s) = selectedFileAnalysis s \<and>
      activeTab (deleteFile_resume c fileId' r s) = activeTab s \<and>
      selectedFileAnalysis (deleteFile True fileId' r c) = selectedFileAnalysis c \<and>
      activeTab (deleteFile True fileId' r c) = activeTab c) \<and>
   deleteFile_start False fileId s = s \<and>
   deleteFile False fileId r s = s"
proof (intro conjI impI)
  assume h: "find_file fileId (files c) = Some f \<and> selectedFileAnalysis c = Some a \<and>
    a_filename (payload a) = Some (filename f) \<and> analysis (payload a) = Some j \<and> truthy j"
  then have sd: "shows_deleted c fileId"
    by (simp add: shows_deleted_def)
  show "selectedFileAnalysis (deleteFile_resume c fileId (Response ok st b) s) = None"
    using deleteFile_resume_retracted [OF sd] by simp
  show "activeTab (deleteFile_resume c fileId (Response ok st b) s) = Files"
    using deleteFile_resume_retracted [OF sd] by simp
  show "selectedFileAnalysis (deleteFile True fileId (Response ok st b) c) = None"
    using deleteFile_resume_retracted [OF sd] by (simp add: deleteFile_def)
  show "activeTab (deleteFile True fileId (Response ok st b) c) = Files"
    using deleteFile_resume_retracted [OF sd] by (simp add: deleteFile_def)
next
  assume h: "find_file fileId' (files c) = Some f' \<and>
    map_option (a_filename \<circ> payload) (selectedFileAnalysis c) \<noteq> Some (Some (filename f'))"
  then have nd: "\<not> shows_deleted c fileId'"
    by (auto simp: shows_deleted_def split: option.splits)
  show "selectedFileAnalysis (deleteFile_resume c fileId' r s) = selectedFileAnalysis s"
    using deleteFile_resume_kept [OF nd] by simp
  show "activeTab (deleteFile_resume c fileId' r s) = activeTab s"
    using deleteFile_resume_kept [OF nd] by simp
  show "selectedFileAnalysis (deleteFile True fileId' r c) = selectedFileAnalysis c"
    using deleteFile_resume_kept [OF nd] by (simp add: deleteFile_def)
  show "activeTab (deleteFile True fileId' r c) = activeTab c"
    using deleteFile_resume_kept [OF nd] by (simp add: deleteFile_def)
next
  show "deleteFile_start False fileId s = s"
    by (simp add: deleteFile_start_def)
  show "deleteFile False fileId r s = s"
    by (simp add: deleteFile_def)
qed

text \<open>
  The example of the specification: files \<open>a.csv\<close> (id 1) and \<open>b.csv\<close> (id 2), the analysis
  of \<open>a.csv\<close> on screen. \<open>delete(1)\<close> retracts the view, \<open>delete(2)\<close> does not.
\<close>

theorem deleteFile_retraction_witness:
  "selectedFileAnalysis (deleteFile True 1 acknowledged viewing) = None \<and>
   activeTab (deleteFile True 1 acknowledged viewing) = Files \<and>
   selectedFileAnalysis (deleteFile True 2 acknowledged viewing) = Some sample_analysis \<and>
   activeTab (deleteFile True 2 acknowledged viewing) = File_analysis \<and>
   deleteFile False 1 acknowledged viewing = viewing"
proof -
  have h1: "find_file 1 (files viewing) = Some (hd sample_files) \<and>
      selectedFileAnalysis viewing = Some sample_analysis \<and>
      a_filename (payload sample_analysis) = Some (filename (hd sample_files)) \<and>
      analysis (payload sample_analysis) =
        Some (JObj [(''summary'', JObj [(''total_rows'', JNum 3)])]) \<and>
      truthy (JObj [(''summary'', JObj [(''total_rows'', JNum 3)])])"
    by (simp add: viewing_fields sample_lookup sample_analysis_def)
  have h2: "find_file 2 (files viewing) = Some (hd (tl sample_files)) \<and>
      map_option (a_filename \<circ> payload) (selectedFileAnalysis viewing)
        \<noteq> Some (Some (filename (hd (tl sample_files))))"
    by (simp add: viewing_fields sample_lookup sample_analysis_def)
  have v: "selectedFileAnalysis viewing = Some sample_analysis" "activeTab viewing = File_analysis"
    by (simp_all add: viewing_fields)
  show ?thesis
    using h1 h2 v
      deleteFile_retraction [of 1 viewing "hd sample_files" sample_analysis
        "JObj [(''summary'', JObj [(''total_rows'', JNum 3)])]" True 200 "Inr ()" viewing
        2 "hd (tl sample_files)" acknowledged]
    by (simp add: acknowledged_def)
qed

text \<open>
  C1 as stated fails. (1) The file list has arrived and the analyze endpoint has answered
  \<open>{success: true, filename: "a.csv"}\<close>, with no \<open>analysis\<close>; \<open>analyzeFile\<close> cached
  that response and opened the tab. File 1 is listed as \<open>a.csv\<close>, the cached filename is \<open>a.csv\<close>, and a
  confirmed, acknowledged \<open>delete(1)\<close> leaves the cache and \<open>activeTab\<close> as they were,
  because line 140 also asks for \<open>selectedFileAnalysis?.analysis\<close>. (2) With the full
  analysis cached, a \<open>DELETE\<close> request that is rejected goes to the \<open>catch\<close> block, which
  only logs.
\<close>

theorem deleteFile_retraction_counterexample:
  "find_file 1 (files viewing_bare) = Some (hd sample_files) \<and>
   filename (hd sample_files) = ''a.csv'' \<and>
   map_option a_filename (map_option payload (selectedFileAnalysis viewing_bare))
     = Some (Some ''a.csv'') \<and>
   selectedFileAnalysis (deleteFile True 1 acknowledged viewing_bare) = Some bare_analysis \<and>
   activeTab (deleteFile True 1 acknowledged viewing_bare) = File_analysis \<and>
   selectedFileAnalysis (deleteFile True 1 (Fetch_rejected ''Failed to fetch'') viewing)
     = Some sample_analysis \<and>
   activeTab (deleteFile True 1 (Fetch_rejected ''Failed to fetch'') viewing) = File_analysis"
  by (simp add: viewing_bare_fields viewing_fields sample_lookup bare_analysis_def deleteFile_def
      deleteFile_start_def deleteFile_resume_def shows_deleted_def acknowledged_def)




subsection \<open>Analyzing a file\<close>

lemmas segment_defs =
  fetchInsights_start_def fetchInsights_resume_def fetchF1Data_start_def
  fetchF1Data_resume_def fetchHistoricalData_start_def fetchHistoricalData_resume_def
  fetchFiles_start_def fetchFiles_resume_def handleFileUpload_start_def
  handleFileUpload_resume_def upload_timer_fired_def deleteFile_start_def
  deleteFile_resume_def

lemma exec_keeps_analyzingFileId:
  "\<not> is_analyze g \<Longrightarrow> analyzingFileId (exec g s) = analyzingFileId s"
  by (cases g) (simp_all add: segment_defs Let_def split: sum.splits option.splits fetched.splits)

lemma run_keeps_analyzingFileId:
  "\<forall>g \<in> set segs. \<not> is_analyze g \<Longrightarrow> analyzingFileId (run segs s) = analyzingFileId s"
  unfolding run_def
  by (induction segs arbitrary: s) (simp_all add: exec_keeps_analyzingFileId)

lemma analyzeFile_start_fields [simp]:
  "analyzingFileId (analyzeFile_start fileId s) = Some fileId"
  "selectedFileAnalysis (analyzeFile_start fileId s) = selectedFileAnalysis s"
  "activeTab (analyzeFile_start fileId s) = activeTab s"
  "effects (analyzeFile_start fileId s) = effects s @ [Fetch (Get_analyze fileId)]"
  by (simp_all add: analyzeFile_start_def)

lemma analyzeFile_resume_clears [simp]:
  "analyzingFileId (analyzeFile_resume r s) = None"
  by (simp add: analyzeFile_resume_def Let_def)

lemma analyzeFile_resume_success:
  "success d \<Longrightarrow>
     analyzeFile_resume (Response ok st (Inr d)) s =
       s\<lparr>selectedFileAnalysis := Some d, activeTab := File_analysis, analyzingFileId := None\<rparr>"
  by (simp add: analyzeFile_resume_def)

lemma analyzeFile_resume_failure:
  "\<not> success d \<Longrightarrow>
     analyzeFile_resume (Response ok st (Inr d)) s =
       (emit (Alert (or_default (message d) ''Failed to analyze file'')) s)
         \<lparr>analyzingFileId := None\<rparr>"
  by (simp add: analyzeFile_resume_def)

text \<open>
  C3. \<open>analyze(fileId)\<close> sets \<open>analyzingFileId\<close> to \<open>fileId\<close> as it sends the request, and
  the cell keeps that value through every schedule of segments of the other operations
  that runs before the response (the call itself has no segment in between; a second,
  overlapping analyze is a segment of \<open>analyzeFile\<close> and is the case the specification
  sets aside). On a success response the continuation caches the response and selects the
  file-analysis tab. On a failure response it raises one \<open>alert\<close>, with the server's
  message when that is a non-empty string and the default text otherwise, and does not
  write \<open>activeTab\<close>. The \<open>finally\<close> block clears \<open>analyzingFileId\<close> on every outcome.
\<close>

theorem analyzeFile_contract:
  "analyzingFileId (analyzeFile_start fileId s) = Some fileId \<and>
   ((\<forall>g \<in> set segs. \<not> is_analyze g) \<longrightarrow>
      analyzingFileId (run segs (analyzeFile_start fileId s)) = Some fileId) \<and>
   (success d \<longrightarrow>
      selectedFileAnalysis (analyzeFile fileId (Response ok st (Inr d)) s) = Some d \<and>
      activeTab (analyzeFile fileId (Response ok st (Inr d)) s) = File_analysis \<and>
      selectedFileAnalysis (analyzeFile_resume (Response ok st (Inr d)) s') = Some d \<and>
      activeTab (analyzeFile_resume (Response ok st (Inr d)) s') = File_analysis) \<and>
   (\<not> success d \<and> message d = Some m \<and> m \<noteq> [] \<longrightarrow>
      effects (analyzeFile_resume (Response ok st (Inr d)) s') = effects s' @ [Alert m] \<and>
      activeTab (analyzeFile_resume (Response ok st (Inr d)) s') = activeTab s' \<and>
      activeTab (analyzeFile fileId (Response ok st (Inr d)) s) = activeTab s) \<and>
   (\<not> success d \<and> (message d = None \<or> message d = Some []) \<longrightarrow>
      effects (analyzeFile_resume (Response ok st (Inr d)) s')
        = effects s' @ [Alert ''Failed to analyze file''] \<and>
      activeTab (analyzeFile_resume (Response ok st (Inr d)) s') = activeTab s' \<and>
      activeTab (analyzeFile fileId (Response ok st (Inr d)) s) = activeTab s) \<and>
   analyzingFileId (analyzeFile_resume r s') = None \<and>
   analyzingFileId (analyzeFile fileId r s) = None"
proof (intro conjI impI)
  assume "\<forall>g \<in> set segs. \<not> is_analyze g"
  then show "analyzingFileId (run segs (analyzeFile_start fileId s)) = Some fileId"
    by (simp add: run_keeps_analyzingFileId)
next
  assume ok: "success d"
  show "selectedFileAnalysis (analyzeFile fileId (Response ok st (Inr d)) s) = Some d"
    by (simp add: analyzeFile_def analyzeFile_resume_success [OF ok])
  show "activeTab (analyzeFile fileId (Response ok st (Inr d)) s) = File_analysis"
    by (simp add: analyzeFile_def analyzeFile_resume_success [OF ok])
  show "selectedFileAnalysis (analyzeFile_resume (Response ok st (Inr d)) s') = Some d"
    by (simp add: analyzeFile_resume_success [OF ok])
  show "activeTab (analyzeFile_resume (Response ok st (Inr d)) s') = File_analysis"
    by (simp add: analyzeFile_resume_success [OF ok])
next
  assume h: "\<not> success d \<and> message d = Some m \<and> m \<noteq> []"
  then have f: "\<not> success d" and t: "or_default (message d) ''Failed to analyze file'' = m"
    by (simp_all add: or_default_def)
  show "effects (analyzeFile_resume (Response ok st (Inr d)) s') = effects s' @ [Alert m]"
    by (simp add: analyzeFile_resume_failure [OF f] t)
  show "activeTab (analyzeFile_resume (Response ok st (Inr d)) s') = activeTab s'"
    by (simp add: analyzeFile_resume_failure [OF f])
  show "activeTab (analyzeFile fileId (Response ok st (Inr d)) s) = activeTab s"
    by (simp add: analyzeFile_def analyzeFile_resume_failure [OF f])
next
  assume h: "\<not> success d \<and> (message d = None \<or> message d = Some [])"
  then have f: "\<not> success d"
    and t: "or_default (message d) ''Failed to analyze file'' = ''Failed to analyze file''"
    by (auto simp: or_default_def)
  show "effects (analyzeFile_resume (Response ok st (Inr d)) s')
      = effects s' @ [Alert ''Failed to analyze file'']"
    by (simp add: analyzeFile_resume_failure [OF f] t)
  show "activeTab (analyzeFile_resume (Response ok st (Inr d)) s') = activeTab s'"
    by (simp add: analyzeFile_resume_failure [OF f])
  show "activeTab (analyzeFile fileId (Response ok st (Inr d)) s) = activeTab s"
    by (simp add: analyzeFile_def analyzeFile_resume_failure [OF f])
qed (simp_all add: analyzeFile_def)

text \<open>
  File 1 is analysed from the files tab while the list is refreshed and another tab is
  opened; then the three kinds of response.
\<close>

theorem analyzeFile_contract_witness:
  "analyzingFileId
     (run [Files_start, Files_resume (Response True 200 (Inr sample_files)), Set_active_tab Race]
        (analyzeFile_start 1 initial)) = Some 1 \<and>
   selectedFileAnalysis (analyzeFile 1 (Response True 200 (Inr sample_analysis)) initial)
     = Some sample_analysis \<and>
   activeTab (analyzeFile 1 (Response True 200 (Inr sample_analysis)) initial) = File_analysis \<and>
   analyzingFileId (analyzeFile 1 (Response True 200 (Inr sample_analysis)) initial) = None \<and>
   effects (analyzeFile 1 (Response False 404 (Inr refused_analysis)) initial)
     = [Fetch (Get_analyze 1), Alert ''File not found''] \<and>
   effects (analyzeFile 1 (Response False 404 (Inr silent_refusal)) initial)
     = [Fetch (Get_analyze 1), Alert ''Failed to analyze file''] \<and>
   activeTab (analyzeFile 1 (Response False 404 (Inr refused_analysis)) initial) = Standings \<and>
   analyzingFileId (analyzeFile 1 (Response False 404 (Inr refused_analysis)) initial) = None"
proof -
  have g: "\<forall>g \<in> set [Files_start, Files_resume (Response True 200 (Inr sample_files)),
      Set_active_tab Race]. \<not> is_analyze g"
    by simp
  have a: "success sample_analysis"
    by (simp add: sample_analysis_def)
  have r: "\<not> success refused_analysis \<and> message refused_analysis = Some ''File not found'' \<and>
      ''File not found'' \<noteq> []"
    by (simp add: refused_analysis_def)
  have q: "\<not> success silent_refusal \<and>
      (message silent_refusal = None \<or> message silent_refusal = Some [])"
    by (simp add: silent_refusal_def refused_analysis_def)
  have i: "effects initial = []" "activeTab initial = Standings"
    by (simp_all add: initial_def)
  show ?thesis
    using g a r q i
      analyzeFile_contract [of 1 initial "[Files_start,
        Files_resume (Response True 200 (Inr sample_files)), Set_active_tab Race]"
        sample_analysis True 200 "analyzeFile_start 1 initial" "''File not found''"
        "Response True 200 (Inr sample_analysis)"]
      analyzeFile_contract [of 1 initial "[]" refused_analysis False 404
        "analyzeFile_start 1 initial" "''File not found''"
        "Response False 404 (Inr refused_analysis)"]
      analyzeFile_contract [of 1 initial "[]" silent_refusal False 404
        "analyzeFile_start 1 initial" "''File not found''"
        "Response False 404 (Inr silent_refusal)"]
    by (simp add: analyzeFile_def)
qed

subsection \<open>The tab bar\<close>

lemma exec_keeps_selectedFileAnalysis:
  "\<not> writes_analysis g \<Longrightarrow> selectedFileAnalysis (exec g s) = selectedFileAnalysis s"
  by (cases g)
    (simp_all add: segment_defs Let_def split: sum.splits option.splits fetched.splits)

lemma availableTabs_cached:
  "File_analysis \<in> set (availableTabs s) \<longleftrightarrow> selectedFileAnalysis s \<noteq> None"
  by (simp add: availableTabs_def)

text \<open>
  C2. In every state (so in every reachable one) the file-analysis tab is in the list the
  tab bar renders exactly when \<open>selectedFileAnalysis\<close> holds a response. The continuation of
  a successful analyze leaves it in the list, and the continuation of a delete that
  clears the cache leaves it out; no other segment writes the cell.
\<close>

theorem file_analysis_tab_iff_cached:
  "(File_analysis \<in> set (availableTabs s) \<longleftrightarrow> selectedFileAnalysis s \<noteq> None) \<and>
   (File_analysis \<in> set (availableTabs (run segs initial))
      \<longleftrightarrow> selectedFileAnalysis (run segs initial) \<noteq> None) \<and>
   File_analysis \<notin> set (availableTabs initial) \<and>
   (success d \<longrightarrow>
      File_analysis \<in> set (availableTabs (analyzeFile_resume (Response ok st (Inr d)) s))) \<and>
   (shows_deleted c fileId \<longrightarrow>
      File_analysis \<notin> set (availableTabs (deleteFile_resume c fileId (Response ok st b) s))) \<and>
   (\<not> writes_analysis g \<longrightarrow>
      (File_analysis \<in> set (availableTabs (exec g s))
        \<longleftrightarrow> File_analysis \<in> set (availableTabs s)))"
proof (intro conjI impI)
  show "File_analysis \<in> set (availableTabs s) \<longleftrightarrow> selectedFileAnalysis s \<noteq> None"
    by (rule availableTabs_cached)
  show "File_analysis \<in> set (availableTabs (run segs initial))
      \<longleftrightarrow> selectedFileAnalysis (run segs initial) \<noteq> None"
    by (rule availableTabs_cached)
  show "File_analysis \<notin> set (availableTabs initial)"
    by (simp add: availableTabs_cached initial_def)
next
  assume "success d"
  then show "File_analysis \<in> set (availableTabs (analyzeFile_resume (Response ok st (Inr d)) s))"
    by (simp add: availableTabs_cached analyzeFile_resume_success)
next
  assume "shows_deleted c fileId"
  then show "File_analysis \<notin> set (availableTabs (deleteFile_resume c fileId (Response ok st b) s))"
    by (simp add: availableTabs_cached deleteFile_resume_retracted)
next
  assume "\<not> writes_analysis g"
  then show "File_analysis \<in> set (availableTabs (exec g s))
      \<longleftrightarrow> File_analysis \<in> set (availableTabs s)"
    by (simp add: availableTabs_cached exec_keeps_selectedFileAnalysis)
qed

text \<open>
  From the initial state: the tab is absent, present after the analysis of \<open>a.csv\<close>
  arrives, still present after a tab change, and gone after \<open>a.csv\<close> is deleted.
\<close>

theorem file_analysis_tab_iff_cached_witness:
  "availableTabs initial = [Standings, Constructors, Race, Historical, Files] \<and>
   availableTabs (analyzeFile_resume (Response True 200 (Inr sample_analysis)) initial)
     = [Standings, Constructors, Race, Historical, Files, File_analysis] \<and>
   File_analysis \<in> set (availableTabs (exec (Set_active_tab Files) viewing)) \<and>
   availableTabs (deleteFile_resume viewing 1 acknowledged viewing)
     = [Standings, Constructors, Race, Historical, Files]"
proof -
  have a: "success sample_analysis"
    by (simp add: sample_analysis_def)
  have d: "shows_deleted viewing 1"
    by (simp add: shows_deleted_def viewing_fields sample_analysis_def sample_lookup)
  have w: "\<not> writes_analysis (Set_active_tab Files)"
    by simp
  have v: "File_analysis \<in> set (availableTabs viewing)"
    by (simp add: availableTabs_def viewing_fields)
  have n: "\<And>s. File_analysis \<notin> set (availableTabs s)
      \<Longrightarrow> availableTabs s = [Standings, Constructors, Race, Historical, Files]"
    by (simp add: availableTabs_def split: if_splits)
  have y: "\<And>s. File_analysis \<in> set (availableTabs s)
      \<Longrightarrow> availableTabs s = [Standings, Constructors, Race, Historical, Files, File_analysis]"
    by (simp add: availableTabs_def split: if_splits)
  show ?thesis
    using a d w v
      file_analysis_tab_iff_cached [of initial "[]" sample_analysis True 200 viewing 1 "Inr ()"
        "Set_active_tab Files"]
      file_analysis_tab_iff_cached [of viewing "[]" sample_analysis True 200 viewing 1 "Inr ()"
        "Set_active_tab Files"]
    by (auto simp: acknowledged_def intro: n y)
qed

subsection \<open>Declared failures and the caches\<close>

lemma fetchF1Data_start_fields [simp]:
  "f1Data (fetchF1Data_start s) = f1Data s"
  "effects (fetchF1Data_start s) = effects s @ [Fetch Post_fetch_data]"
  by (simp_all add: fetchF1Data_start_def)

lemma fetchF1Data_resume_failure:
  "\<not> success d \<Longrightarrow>
     fetchF1Data_resume (Response True st (Inr d)) s =
       s\<lparr>error := Some (or_default (message d) ''Failed to fetch data''), loading := False\<rparr>"
  by (simp add: fetchF1Data_resume_def)

lemma fetchF1Data_resume_thrown:
  "awaited_ok r = Inl m \<Longrightarrow>
     fetchF1Data_resume r s =
       s\<lparr>error := Some (''Backend connection failed: '' @ m @
         ''. Make sure your backend server is running on port 8000.''), loading := False\<rparr>"
  by (simp add: fetchF1Data_resume_def)

lemma fetchF1Data_resume_success:
  "success d \<Longrightarrow>
     fetchF1Data_resume (Response True st (Inr d)) s =
       (fetchInsights_start (s\<lparr>f1Data := payload d\<rparr>))\<lparr>loading := False\<rparr>"
  by (simp add: fetchF1Data_resume_def)

lemma fetchHistoricalData_start_fields [simp]:
  "historicalData (fetchHistoricalData_start year s) = None"
  "error (fetchHistoricalData_start year s) = None"
  "effects (fetchHistoricalData_start year s) = effects s @ [Fetch (Get_historical year)]"
  by (simp_all add: fetchHistoricalData_start_def)

lemma fetchHistoricalData_resume_failure:
  "\<not> success d \<Longrightarrow>
     fetchHistoricalData_resume year (Response ok st (Inr d)) s =
       s\<lparr>error := Some (or_default (message d) (''No data available for '' @ show_nat year)),
         loading := False\<rparr>"
  by (simp add: fetchHistoricalData_resume_def)

text \<open>
  C4, as amended. A response with \<open>success = false\<close> makes the season-snapshot fetch and the
  file analyze leave their caches (\<open>f1Data\<close>, \<open>selectedFileAnalysis\<close>) as they were: neither
  segment of the operation writes the cache, so it holds after completion what it held
  before the call. The historical fetch is different: its first segment clears
  \<open>historicalData\<close>, its continuation writes nothing on such a response, and the cache is
  empty after completion whatever it held before.
\<close>

theorem declared_failure_caches:
  "(\<not> success d1 \<longrightarrow>
      f1Data (fetchF1Data_start s) = f1Data s \<and>
      f1Data (fetchF1Data_resume (Response ok st (Inr d1)) s) = f1Data s \<and>
      f1Data (fetchF1Data (Response ok st (Inr d1)) s) = f1Data s) \<and>
   (\<not> success d2 \<longrightarrow>
      selectedFileAnalysis (analyzeFile_start fileId s) = selectedFileAnalysis s \<and>
      selectedFileAnalysis (analyzeFile_resume (Response ok st (Inr d2)) s)
        = selectedFileAnalysis s \<and>
      selectedFileAnalysis (analyzeFile fileId (Response ok st (Inr d2)) s)
        = selectedFileAnalysis s) \<and>
   (\<not> success d3 \<longrightarrow>
      historicalData (fetchHistoricalData_start year s) = None \<and>
      historicalData (fetchHistoricalData_resume year (Response ok st (Inr d3)) s)
        = historicalData s \<and>
      historicalData (fetchHistoricalData year (Response ok st (Inr d3)) s) = None)"
proof (intro conjI impI)
  assume f: "\<not> success d1"
  have r: "f1Data (fetchF1Data_resume (Response ok st (Inr d1)) s') = f1Data s'" for s'
  proof (cases ok)
    case True
    then show ?thesis by (simp add: fetchF1Data_resume_failure [OF f])
  next
    case False
    then show ?thesis by (simp add: fetchF1Data_resume_thrown)
  qed
  show "f1Data (fetchF1Data_start s) = f1Data s"
    by simp
  show "f1Data (fetchF1Data_resume (Response ok st (Inr d1)) s) = f1Data s"
    by (rule r)
  show "f1Data (fetchF1Data (Response ok st (Inr d1)) s) = f1Data s"
    by (simp add: fetchF1Data_def r)
next
  assume f: "\<not> success d2"
  show "selectedFileAnalysis (analyzeFile_start fileId s) = selectedFileAnalysis s"
    by simp
  show "selectedFileAnalysis (analyzeFile_resume (Response ok st (Inr d2)) s)
      = selectedFileAnalysis s"
    by (simp add: analyzeFile_resume_failure [OF f])
  show "selectedFileAnalysis (analyzeFile fileId (Response ok st (Inr d2)) s)
      = selectedFileAnalysis s"
    by (simp add: analyzeFile_def analyzeFile_resume_failure [OF f])
next
  assume f: "\<not> success d3"
  show "historicalData (fetchHistoricalData_start year s) = None"
    by simp
  show "historicalData (fetchHistoricalData_resume year (Response ok st (Inr d3)) s)
      = historicalData s"
    by (simp add: fetchHistoricalData_resume_failure [OF f])
  show "historicalData (fetchHistoricalData year (Response ok st (Inr d3)) s) = None"
    by (simp add: fetchHistoricalData_def fetchHistoricalData_resume_failure [OF f])
qed

theorem declared_failure_caches_witness:
  "f1Data (fetchF1Data (Response True 200 (Inr snapshot_refused))
     (initial\<lparr>f1Data := Some snapshot_2024\<rparr>)) = Some snapshot_2024 \<and>
   selectedFileAnalysis (analyzeFile 2 (Response True 200 (Inr refused_analysis)) viewing)
     = Some sample_analysis \<and>
   historicalData (fetchHistoricalData 1955 (Response True 200 (Inr no_data)) season_loaded)
     = None"
proof -
  have f: "\<not> success snapshot_refused" "\<not> success refused_analysis" "\<not> success no_data"
    by (simp_all add: snapshot_refused_def refused_analysis_def no_data_def)
  have v: "selectedFileAnalysis viewing = Some sample_analysis"
    by (simp add: viewing_fields)
  show ?thesis
    using f v
      declared_failure_caches [of snapshot_refused "initial\<lparr>f1Data := Some snapshot_2024\<rparr>"
        True 200 refused_analysis 2 no_data 1955]
      declared_failure_caches [of snapshot_refused viewing True 200 refused_analysis 2 no_data 1955]
      declared_failure_caches [of snapshot_refused season_loaded True 200 refused_analysis 2
        no_data 1955]
    by simp
qed

text \<open>
  C4 as stated fails for the historical fetch: with the season 2000 cached,
  \<open>fetchHistorical(1955)\<close> answered by \<open>{success: false, message: "no data"}\<close> ends with an
  empty cache, not with the season it held when the operation was invoked.
\<close>

theorem declared_failure_caches_counterexample:
  "success no_data = False \<and>
   historicalData season_loaded = Some season_2000 \<and>
   historicalData (fetchHistoricalData 1955 (Response True 200 (Inr no_data)) season_loaded)
     = None"
  by (simp add: no_data_def season_loaded_fields fetchHistoricalData_def
      fetchHistoricalData_start_def fetchHistoricalData_resume_def)

subsection \<open>The historical fetch\<close>

text \<open>
  C7. For every year, when the first segment of \<open>fetchHistorical(year)\<close> has run (the
  request is sent, no response can have arrived) the cache is empty, whatever it held.
  When the response is \<open>success = false\<close> with message \<open>"no data"\<close>, the cache is empty after
  completion and the banner's \<open>error\<close> cell holds exactly \<open>"no data"\<close>.
\<close>

theorem fetchHistoricalData_clears_first:
  "historicalData (fetchHistoricalData_start year s) = None \<and>
   effects (fetchHistoricalData_start year s) = effects s @ [Fetch (Get_historical year)] \<and>
   (\<not> success d \<and> message d = Some ''no data'' \<longrightarrow>
      historicalData (fetchHistoricalData year (Response ok st (Inr d)) s) = None \<and>
      error (fetchHistoricalData year (Response ok st (Inr d)) s) = Some ''no data'' \<and>
      error (fetchHistoricalData_resume year (Response ok st (Inr d)) s') = Some ''no data'')"
proof (intro conjI impI)
  assume h: "\<not> success d \<and> message d = Some ''no data''"
  then have f: "\<not> success d"
    and t: "\<And>dflt. or_default (message d) dflt = ''no data''"
    by (simp_all add: or_default_def)
  show "historicalData (fetchHistoricalData year (Response ok st (Inr d)) s) = None"
    by (simp add: fetchHistoricalData_def fetchHistoricalData_resume_failure [OF f])
  show "error (fetchHistoricalData year (Response ok st (Inr d)) s) = Some ''no data''"
    by (simp add: fetchHistoricalData_def fetchHistoricalData_resume_failure [OF f] t)
  show "error (fetchHistoricalData_resume year (Response ok st (Inr d)) s') = Some ''no data''"
    by (simp add: fetchHistoricalData_resume_failure [OF f] t)
qed simp_all

theorem fetchHistoricalData_clears_first_witness:
  "historicalData (fetchHistoricalData_start 1955 season_loaded) = None \<and>
   historicalData (fetchHistoricalData 1955 (Response True 200 (Inr no_data)) season_loaded)
     = None \<and>
   error (fetchHistoricalData 1955 (Response True 200 (Inr no_data)) season_loaded)
     = Some ''no data''"
proof -
  have h: "\<not> success no_data \<and> message no_data = Some ''no data''"
    by (simp add: no_data_def)
  show ?thesis
    using h fetchHistoricalData_clears_first [of 1955 season_loaded no_data True 200 season_loaded]
    by simp
qed

subsection \<open>Uploading a file\<close>

lemma handleFileUpload_effects:
  "effects (handleFileUpload (Some f) r s) =
     effects s @ [Fetch (Post_upload f)] @
       (case awaited r of
          Inr d \<Rightarrow> if success d then [Fetch Get_files, Set_timeout 3000] else []
        | Inl m \<Rightarrow> [])"
  by (simp add: handleFileUpload_def handleFileUpload_start_def handleFileUpload_resume_def
      split: sum.splits)

lemma handleFileUpload_status:
  "uploadStatus (handleFileUpload (Some f) r s) =
     (case awaited r of
        Inr d \<Rightarrow> if success d then ''Upload successful!'' else ''Uploading...''
      | Inl m \<Rightarrow> ''Upload failed: '' @ m)"
  by (simp add: handleFileUpload_def handleFileUpload_start_def handleFileUpload_resume_def
      split: sum.splits)

text \<open>
  C5 does not hold of the code. An upload answered by
  \<open>{success: false, message: "Unsupported file type"}\<close> leaves the indicator at
  \<open>Uploading...\<close>: the \<open>if (data.success)\<close> of \<open>handleFileUpload\<close> has no \<open>else\<close>, so no
  failure text is ever set and the server's message is dropped. Only a rejected request
  reaches the \<open>catch\<close> block and shows \<open>Upload failed: ...\<close>. No timer is started on
  either failure; a successful upload starts the one timer of 3000 ms whose callback
  empties the indicator.
\<close>

theorem handleFileUpload_declared_failure:
  "success upload_refused = False \<and>
   uploadStatus (handleFileUpload (Some ''laps.csv'') (Response False 400 (Inr upload_refused))
     initial) = ''Uploading...'' \<and>
   effects (handleFileUpload (Some ''laps.csv'') (Response False 400 (Inr upload_refused))
     initial) = [Fetch (Post_upload ''laps.csv'')] \<and>
   uploadStatus (handleFileUpload (Some ''laps.csv'') (Fetch_rejected ''Failed to fetch'')
     initial) = ''Upload failed: Failed to fetch'' \<and>
   effects (handleFileUpload (Some ''laps.csv'') (Fetch_rejected ''Failed to fetch'')
     initial) = [Fetch (Post_upload ''laps.csv'')] \<and>
   uploadStatus (handleFileUpload (Some ''laps.csv'') (Response True 200 (Inr upload_accepted))
     initial) = ''Upload successful!'' \<and>
   effects (handleFileUpload (Some ''laps.csv'') (Response True 200 (Inr upload_accepted))
     initial) = [Fetch (Post_upload ''laps.csv''), Fetch Get_files, Set_timeout 3000] \<and>
   uploadStatus (upload_timer_fired
     (handleFileUpload (Some ''laps.csv'') (Response True 200 (Inr upload_accepted)) initial))
     = []"
  by (simp add: handleFileUpload_effects handleFileUpload_status upload_refused_def
      upload_accepted_def initial_def upload_timer_fired_def)

text \<open>
  C6. An upload that succeeds sends \<open>GET /files\<close> exactly once; an upload that fails, by a
  response with \<open>success = false\<close>, by a body that is not JSON or by a rejected request,
  sends it not at all.
\<close>

theorem handleFileUpload_refreshes_once:
  "(success d \<longrightarrow>
      fetches Get_files (handleFileUpload (Some f) (Response ok st (Inr d)) s)
        = fetches Get_files s + 1) \<and>
   (\<not> success d \<longrightarrow>
      fetches Get_files (handleFileUpload (Some f) (Response ok st (Inr d)) s)
        = fetches Get_files s) \<and>
   fetches Get_files (handleFileUpload (Some f) (Response ok st (Inl m)) s)
     = fetches Get_files s \<and>
   fetches Get_files (handleFileUpload (Some f) (Fetch_rejected m) s) = fetches Get_files s"
  by (simp add: fetches_def handleFileUpload_effects)

theorem handleFileUpload_refreshes_once_witness:
  "fetches Get_files (handleFileUpload (Some ''laps.csv'') (Response True 200 (Inr upload_accepted))
     initial) = 1 \<and>
   fetches Get_files (handleFileUpload (Some ''laps.csv'') (Response False 400 (Inr upload_refused))
     initial) = 0 \<and>
   fetches Get_files (handleFileUpload (Some ''laps.csv'') (Fetch_rejected ''Failed to fetch'')
     initial) = 0"
proof -
  have a: "success upload_accepted" "\<not> success upload_refused"
    by (simp_all add: upload_accepted_def upload_refused_def)
  have i: "fetches Get_files initial = 0"
    by (simp add: fetches_def initial_def)
  show ?thesis
    using a i
      handleFileUpload_refreshes_once [of upload_accepted "''laps.csv''" True 200 initial
        "''Failed to fetch''"]
      handleFileUpload_refreshes_once [of upload_refused "''laps.csv''" False 400 initial
        "''Failed to fetch''"]
    by simp
qed

subsection \<open>The standings view\<close>

text \<open>
  C8. When the cached snapshot's \<open>driver_standings\<close> has twelve rows whose positions are
  1 to 12 in this order, \<open>getDriverStandings\<close> returns its first ten rows: their positions
  are 1 to 10 in this order, and a row of the snapshot is returned exactly when its
  position is at most 10.
\<close>

theorem getDriverStandings_top_ten:
  assumes "f1Data s = Some d" and "driver_standings d = Some rows"
    and "map position rows = [1..<13]"
  shows "getDriverStandings s = take 10 rows \<and>
    length (getDriverStandings s) = 10 \<and>
    map position (getDriverStandings s) = [1..<11] \<and>
    set (getDriverStandings s) = {r \<in> set rows. position r \<le> 10}"
proof -
  have g: "getDriverStandings s = take 10 rows"
    using assms by (simp add: getDriverStandings_def)
  have len: "length rows = 12"
    using arg_cong [OF assms(3), of length] by simp
  have p: "map position (take 10 rows) = [1..<11]"
    using arg_cong [OF assms(3), of "take 10"] by (simp add: take_map)
  have q: "map position (drop 10 rows) = [11..<13]"
    using arg_cong [OF assms(3), of "drop 10"] by (simp add: drop_map)
  have lo: "position r \<le> 10" if "r \<in> set (take 10 rows)" for r
  proof -
    from that have "position r \<in> set (map position (take 10 rows))" by simp
    then show ?thesis unfolding p by simp
  qed
  have hi: "10 < position r" if "r \<in> set (drop 10 rows)" for r
  proof -
    from that have "position r \<in> set (map position (drop 10 rows))" by simp
    then show ?thesis unfolding q by auto
  qed
  have split: "set rows = set (take 10 rows) \<union> set (drop 10 rows)"
    by (metis append_take_drop_id set_append)
  have "set (take 10 rows) = {r \<in> set rows. position r \<le> 10}"
    using lo hi split by fastforce
  then show ?thesis
    using g p len by simp
qed

theorem getDriverStandings_top_ten_witness:
  "map position twelve_drivers = [1..<13] \<and>
   getDriverStandings standings_loaded = take 10 twelve_drivers \<and>
   length (getDriverStandings standings_loaded) = 10 \<and>
   map position (getDriverStandings standings_loaded) = [1..<11]"
proof -
  have a: "f1Data standings_loaded = Some (snapshot_2024\<lparr>driver_standings := Some twelve_drivers\<rparr>)"
    by (simp add: standings_loaded_def snapshot_twelve_def fetchF1Data_def
        fetchF1Data_resume_def fetchInsights_start_def)
  have b: "driver_standings (snapshot_2024\<lparr>driver_standings := Some twelve_drivers\<rparr>)
      = Some twelve_drivers"
    by simp
  have c: "map position twelve_drivers = [1..<13]"
    by (simp add: twelve_drivers_def comp_def)
  show ?thesis
    using c getDriverStandings_top_ten [OF a b c] by blast
qed

subsection \<open>Snapshot and insights\<close>

text \<open>
  The continuation of the snapshot fetch sends \<open>GET /f1/insights\<close> once when the response
  is successful (\<open>response.ok\<close>, a JSON body, \<open>data.success\<close>), and sends nothing on any
  other outcome; the first segment sends only the snapshot request. The continuation of
  the insights fetch never writes the banner's \<open>error\<close> cell, and when the request or
  \<open>response.json()\<close> is rejected it adds one \<open>console.error\<close> and nothing else.
\<close>

lemma fetchF1Data_insights_follow_up:
  "effects (fetchF1Data_start s) = effects s @ [Fetch Post_fetch_data] \<and>
   (success d \<longrightarrow>
      effects (fetchF1Data_resume (Response True st (Inr d)) s)
        = effects s @ [Fetch Get_insights]) \<and>
   (\<not> success d \<longrightarrow>
      effects (fetchF1Data_resume (Response True st (Inr d)) s) = effects s) \<and>
   effects (fetchF1Data_resume (Response False st j) s) = effects s \<and>
   effects (fetchF1Data_resume (Response True st (Inl m)) s) = effects s \<and>
   effects (fetchF1Data_resume (Fetch_rejected m) s) = effects s \<and>
   error (fetchInsights_resume r s) = error s \<and>
   (awaited r = Inl m \<longrightarrow>
      fetchInsights_resume r s = emit (Console_error ''Failed to fetch insights:'' m) s)"
  by (simp add: fetchF1Data_resume_success fetchF1Data_resume_failure fetchF1Data_resume_thrown
      fetchInsights_start_def fetchInsights_resume_def split: sum.splits)

lemma snapshot_shown_fields:
  "effects snapshot_shown = [Fetch Post_fetch_data, Fetch Get_insights]"
  "insights snapshot_shown = Some []"
  "error snapshot_shown = None"
  by (simp_all add: snapshot_shown_def snapshot_ok_def fetchF1Data_def fetchF1Data_start_def
      fetchF1Data_resume_def fetchInsights_start_def emit_def initial_def)

text \<open>
  C9 does not hold of the code. Its first half does: a successful snapshot response sends
  the insights request, a refused one sends none. Its second half fails when the
  insights fetch fails with a JSON body, here status 500 and a body without \<open>insights\<close>:
  \<open>fetchInsights\<close> tests neither \<open>response.ok\<close> nor a \<open>success\<close> flag, so nothing is logged,
  \<open>setInsights(undefined)\<close> runs, and the next render throws at \<open>insights.length\<close> on line
  333. The banner's \<open>error\<close> stays as it was. A rejected request, by contrast, is only
  logged and leaves the cards as they were.
\<close>

theorem fetchInsights_failure_with_body:
  "effects snapshot_shown = [Fetch Post_fetch_data, Fetch Get_insights] \<and>
   effects (fetchF1Data (Response True 200 (Inr snapshot_refused)) initial)
     = [Fetch Post_fetch_data] \<and>
   effects (fetchInsights_resume (Response False 500 (Inr None)) snapshot_shown)
     = [Fetch Post_fetch_data, Fetch Get_insights] \<and>
   insights (fetchInsights_resume (Response False 500 (Inr None)) snapshot_shown) = None \<and>
   insight_cards (fetchInsights_resume (Response False 500 (Inr None)) snapshot_shown)
     = Inl TypeError \<and>
   error (fetchInsights_resume (Response False 500 (Inr None)) snapshot_shown) = None \<and>
   effects (fetchInsights_resume (Fetch_rejected ''Failed to fetch'') snapshot_shown)
     = [Fetch Post_fetch_data, Fetch Get_insights,
        Console_error ''Failed to fetch insights:'' ''Failed to fetch''] \<and>
   insight_cards (fetchInsights_resume (Fetch_rejected ''Failed to fetch'') snapshot_shown)
     = Inr [] \<and>
   error (fetchInsights_resume (Fetch_rejected ''Failed to fetch'') snapshot_shown) = None"
  by (simp add: snapshot_shown_fields fetchInsights_resume_def insight_cards_def
      snapshot_refused_def fetchF1Data_def fetchF1Data_start_def fetchF1Data_resume_def
      initial_def)

end
